theory Spec2Isabelle
  imports Complex_Main "HOL-Library.Multiset" "HOL-Library.Sublist"
begin

section \<open>Python values shared by both scrapers\<close>

text \<open>
  A Python \<open>str\<close> is modelled as a \<open>string\<close>: every \<open>char\<close> stands for the code
  point of the same number, so the texts of the model are the Python strings over the code
  points below 256.  An exception is a value: its class and the text \<open>str(e)\<close>.  Only
  subclasses of \<open>Exception\<close> occur; a function that may raise returns \<open>py_exn + 'a\<close>,
  with \<open>Inl\<close> the exception that leaves the function.
\<close>

datatype exn_kind =
  HTTPStatusError | TimeoutException | TransportError | RequestsError
  | JSONDecodeError | KeyError | ValueError | AttributeError | TypeError

datatype py_exn = Exn exn_kind string

fun exn_kind_of :: "py_exn \<Rightarrow> exn_kind" where
  "exn_kind_of (Exn k m) = k"

fun exn_str :: "py_exn \<Rightarrow> string" where
  "exn_str (Exn k m) = m"

text \<open>\<open>str(KeyError(k))\<close> is the \<open>repr\<close> of the key: the key between single quotes.\<close>

definition key_error :: "string \<Rightarrow> py_exn" where
  "key_error k = Exn KeyError ([CHR 0x27] @ k @ [CHR 0x27])"

text \<open>\<open>str(n)\<close> and \<open>f"{n}"\<close> for an integer: its decimal digits, with a sign.\<close>

definition digit_char :: "nat \<Rightarrow> char" where
  "digit_char d = ''0123456789'' ! d"

fun str_of_nat :: "nat \<Rightarrow> string" where
  "str_of_nat n = (if n < 10 then [digit_char n] else str_of_nat (n div 10) @ [digit_char (n mod 10)])"

declare str_of_nat.simps [simp del]

definition str_of_int :: "int \<Rightarrow> string" where
  "str_of_int i = (if i < 0 then CHR ''-'' # str_of_nat (nat (- i)) else str_of_nat (nat i))"

section \<open>The canonical data model (scrapers/models.py)\<close>

record ContestSummary =
  cs_id :: string
  cs_name :: string
  cs_display_name :: string

record ContestListResult =
  cl_success :: bool
  cl_error :: string
  cl_contests :: "ContestSummary list"

text \<open>
  Modelled from the spec: \<open>BaseScraper._contests_error\<close> (scrapers/base.py is not among
  the sources).  Section 3 of the specification fixes the failure envelope: \<open>success\<close> is
  false, \<open>error\<close> carries the message, and the collection is empty.
\<close>

definition contests_error :: "string \<Rightarrow> ContestListResult" where
  "contests_error msg = \<lparr>cl_success = False, cl_error = msg, cl_contests = []\<rparr>"


record ProblemSummary =
  ps_id :: string
  ps_name :: string

record MetadataResult =
  md_success :: bool
  md_error :: string
  md_contest_id :: string
  md_problems :: "ProblemSummary list"
  md_url :: string

record TestCase =
  tc_input :: string
  tc_expected :: string

text \<open>
  The record a streaming operation prints for one problem.  \<open>memory_mb\<close> is a float in
  Python; here it is the rational it stands for.
\<close>

record TestsResult =
  tr_problem_id :: string
  tr_combined_input :: string
  tr_combined_expected :: string
  tr_tests :: "TestCase list"
  tr_timeout_ms :: int
  tr_memory_mb :: rat
  tr_interactive :: bool
  tr_multi_test :: bool

text \<open>What a streaming operation writes: a terminal \<open>{"error": ...}\<close> line, or a payload.\<close>

datatype stream_item = ErrorRecord string | Payload TestsResult

text \<open>
  Modelled from the spec: \<open>BaseScraper._metadata_error\<close> (scrapers/base.py is not among
  the sources).  Section 3 of the specification: on failure \<open>success\<close> is false, \<open>error\<close>
  carries the message and the collections are empty.
\<close>

definition metadata_error :: "string \<Rightarrow> MetadataResult" where
  "metadata_error msg =
     \<lparr>md_success = False, md_error = msg, md_contest_id = [], md_problems = [], md_url = []\<rparr>"

section \<open>Completion order\<close>

text \<open>
  \<open>asyncio.as_completed(tasks)\<close>: the results of the tasks in the order in which they
  finish.  \<open>finish i\<close> is the moment the task at index \<open>i\<close> finishes; the order among tasks
  that finish together is not material to the model.
\<close>

definition as_completed :: "(nat \<Rightarrow> nat) \<Rightarrow> 'a list \<Rightarrow> 'a list" where
  "as_completed finish tasks = map snd (sort_key fst (zip (map finish [0..<length tasks]) tasks))"


section \<open>String operations and the regular expressions of the scrapers\<close>

text \<open>
  \<open>c.isspace()\<close> for a code point below 256, which is also the class \<open>\s\<close> of \<open>re\<close> on a
  \<open>str\<close> pattern: the characters 9 to 13, 28 to 32, 133 and 160.
\<close>

definition is_space :: "char \<Rightarrow> bool" where
  "is_space c = (of_char c \<in> set ([9, 10, 11, 12, 13, 28, 29, 30, 31, 32, 133, 160] :: nat list))"

text \<open>\<open>s.strip()\<close>: the whitespace at both ends removed.\<close>

definition strip :: "string \<Rightarrow> string" where
  "strip s = rev (dropWhile is_space (rev (dropWhile is_space s)))"

text \<open>\<open>sep.join(xs)\<close>.\<close>

fun join :: "string \<Rightarrow> string list \<Rightarrow> string" where
  "join sep [] = []"
| "join sep [x] = x"
| "join sep (x # y # ys) = x @ sep @ join sep (y # ys)"

text \<open>
  \<open>s.upper()\<close> and \<open>s.lower()\<close>, on the letters of ASCII; a character that is not an ASCII
  letter is left as it is.  The two functions are those of Python on the texts whose cased
  letters are ASCII; a cased letter beyond ASCII, which Python folds (and \<open>upper\<close> may even
  lengthen), is outside the model.
\<close>

definition ascii_lowercase :: string where
  "ascii_lowercase = ''abcdefghijklmnopqrstuvwxyz''"

definition ascii_uppercase :: string where
  "ascii_uppercase = ''ABCDEFGHIJKLMNOPQRSTUVWXYZ''"

definition upper_char :: "char \<Rightarrow> char" where
  "upper_char c = (case map_of (zip ascii_lowercase ascii_uppercase) c of None \<Rightarrow> c | Some u \<Rightarrow> u)"

definition lower_char :: "char \<Rightarrow> char" where
  "lower_char c = (case map_of (zip ascii_uppercase ascii_lowercase) c of None \<Rightarrow> c | Some l \<Rightarrow> l)"

definition upper :: "string \<Rightarrow> string" where
  "upper s = map upper_char s"

definition lower :: "string \<Rightarrow> string" where
  "lower s = map lower_char s"

text \<open>
  A literal of a pattern compiled with \<open>re.IGNORECASE\<close>, matched at the start of \<open>s\<close>: the
  rest of \<open>s\<close> after it, or \<open>None\<close>.  (No code point below 256 other than the two ASCII
  cases of a letter folds to that letter.)
\<close>

definition match_literal_ci :: "string \<Rightarrow> string \<Rightarrow> string option" where
  "match_literal_ci lit s =
     (if length lit \<le> length s \<and> lower (take (length lit) s) = lower lit
      then Some (drop (length lit) s) else None)"

text \<open>
  The class \<open>\d\<close> (below 256 the decimal digits are those of ASCII), the class \<open>[0-9.]\<close>,
  and \<open>int(ds)\<close> for a string of digits.
\<close>

definition is_digit :: "char \<Rightarrow> bool" where
  "is_digit c = (c \<in> set ''0123456789'')"

definition is_digit_or_dot :: "char \<Rightarrow> bool" where
  "is_digit_or_dot c = (is_digit c \<or> c = CHR ''.'')"

definition digit_value :: "char \<Rightarrow> nat" where
  "digit_value c = of_char c - 48"

definition nat_of_digits :: "string \<Rightarrow> nat" where
  "nat_of_digits ds = foldl (\<lambda>a c. 10 * a + digit_value c) 0 ds"

text \<open>
  \<open>float(s)\<close> for a string \<open>s\<close> of digits and dots, the only strings the group
  \<open>([0-9.]+)\<close> captures: digits with at most one dot and at least one digit denote a
  number, every other such string raises \<open>ValueError\<close> (\<open>None\<close> here).  The result is the
  rational the decimal denotes; Python holds the double nearest to it (the infinity for a
  decimal beyond the doubles), so the model gives the value of the float only where the
  decimal is a double, and in every case whether \<open>float\<close> raises.
\<close>

definition float_of_digits_dots :: "string \<Rightarrow> rat option" where
  "float_of_digits_dots s =
     (let whole = takeWhile is_digit s in
      case dropWhile is_digit s of
        [] \<Rightarrow> if whole = [] then None else Some (of_nat (nat_of_digits whole))
      | c # fr \<Rightarrow>
          if c = CHR ''.'' \<and> list_all is_digit fr \<and> \<not> (whole = [] \<and> fr = [])
          then Some (of_nat (nat_of_digits (whole @ fr)) / 10 ^ length fr)
          else None)"

subsection \<open>\<open>MEMORY_LIMIT_RE\<close> of codechef.py\<close>

text \<open>
  \<open>re.compile(r"Memory\s+[Ll]imit.*?([0-9.]+)\s*(MB|GB)", re.IGNORECASE | re.DOTALL)\<close>.
  The backtracking matcher of \<open>re\<close> is written out for this pattern.

  \<open>([0-9.]+)\s*(MB|GB)\<close> at the start of \<open>s\<close>: the greedy \<open>[0-9.]+\<close> takes the longest run
  of digits and dots and the greedy \<open>\s*\<close> the longest run of whitespace.  Giving back a
  character of either run cannot help: the next character would then be a digit, a dot or
  whitespace, where \<open>M\<close> or \<open>G\<close> is needed.  The result is the two groups.
\<close>

definition match_number_unit :: "string \<Rightarrow> (string \<times> string) option" where
  "match_number_unit s =
     (let num = takeWhile is_digit_or_dot s;
          rest = dropWhile is_space (dropWhile is_digit_or_dot s) in
      if num = [] then None
      else if \<not> (match_literal_ci ''MB'' rest = None \<and> match_literal_ci ''GB'' rest = None)
      then Some (num, take 2 rest)
      else None)"

text \<open>
  The lazy \<open>.*?\<close> in front of it: with \<open>re.DOTALL\<close> the dot matches every character, and
  the lazy star tries the shortest skip first.
\<close>

fun skip_to_number_unit :: "string \<Rightarrow> (string \<times> string) option" where
  "skip_to_number_unit [] = match_number_unit []"
| "skip_to_number_unit (c # cs) =
     (case match_number_unit (c # cs) of
        Some g \<Rightarrow> Some g
      | None \<Rightarrow> skip_to_number_unit cs)"

text \<open>
  The whole pattern at the start of \<open>s\<close>.  The greedy \<open>\s+\<close> takes the longest run of
  whitespace (one character at least); a shorter run would leave whitespace where the
  letter \<open>l\<close> is needed.
\<close>

definition match_memory_limit_at :: "string \<Rightarrow> (string \<times> string) option" where
  "match_memory_limit_at s =
     (case match_literal_ci ''Memory'' s of
        None \<Rightarrow> None
      | Some r \<Rightarrow>
          if takeWhile is_space r = [] then None
          else (case match_literal_ci ''limit'' (dropWhile is_space r) of
                  None \<Rightarrow> None
                | Some r' \<Rightarrow> skip_to_number_unit r'))"

text \<open>\<open>MEMORY_LIMIT_RE.search(html)\<close>: the match at the leftmost position that has one.\<close>

fun memory_limit_search :: "string \<Rightarrow> (string \<times> string) option" where
  "memory_limit_search [] = match_memory_limit_at []"
| "memory_limit_search (c # cs) =
     (case match_memory_limit_at (c # cs) of
        Some g \<Rightarrow> Some g
      | None \<Rightarrow> memory_limit_search cs)"

subsection \<open>\<open>START(\d+)\<close> of codechef.py\<close>

text \<open>
  \<open>re.match(r"START(\d+)", contest_code)\<close>: the pattern is matched at the start of the
  code and nothing is asked of what follows the digits; the group is the longest run of
  digits after the prefix.
\<close>

definition match_START :: "string \<Rightarrow> string option" where
  "match_START contest_code =
     (if prefix ''START'' contest_code \<and> takeWhile is_digit (drop 5 contest_code) \<noteq> []
      then Some (takeWhile is_digit (drop 5 contest_code)) else None)"


section \<open>CodeChef (scrapers/codechef.py)\<close>

definition cc_BASE_URL :: string where
  "cc_BASE_URL = ''https://www.codechef.com''"

text \<open>
  The JSON bodies of the API, in the shape the code reads them.  A dict that the code
  iterates is the list of its items in the order of the dict (its keys are distinct); an
  absent or empty dict or list is the empty list; a key read with \<open>.get\<close> is optional.
\<close>

record cc_problem =
  p_category_name :: "string option"
  p_name :: "string option"

record cc_division =
  dv_contest_code :: "string option"
  dv_div_number :: "string option"

record cc_contest =
  cc_problems :: "(string \<times> cc_problem) list"
  cc_child_contests :: "(string \<times> cc_division) list"

record cc_listing =
  l_contest_code :: "string option"

record cc_catalog =
  future_contests :: "cc_listing list"
  past_contests :: "cc_listing list"

record cc_sample =
  s_input :: "string option"
  s_output :: "string option"
  s_is_deleted :: bool

record cc_problem_detail =
  pd_sample_tests :: "cc_sample list"
  pd_max_timelimit :: "string option"

subsection \<open>\<open>_extract_memory_limit\<close>\<close>

definition extract_memory_limit :: "string \<Rightarrow> py_exn + rat" where
  "extract_memory_limit html =
     (case memory_limit_search html of
        None \<Rightarrow> Inr 256
      | Some (number, unit_text) \<Rightarrow>
          (case float_of_digits_dots number of
             None \<Rightarrow> Inl (Exn ValueError (''could not convert string to float: '' @ [CHR 0x27] @ number @ [CHR 0x27]))
           | Some v \<Rightarrow> if upper unit_text = ''GB'' then Inr (v * 1024) else Inr v))"

subsection \<open>\<open>CodeChefScraper.scrape_contest_metadata\<close>\<close>

text \<open>The loop over \<open>data["problems"].items()\<close>, with the list \<open>problems\<close> built so far.\<close>

fun cc_main_summaries :: "(string \<times> cc_problem) list \<Rightarrow> ProblemSummary list \<Rightarrow> ProblemSummary list" where
  "cc_main_summaries [] problems = problems"
| "cc_main_summaries ((problem_code, problem_data) # rest) problems =
     (if p_category_name problem_data = Some ''main''
      then cc_main_summaries rest
             (problems @ [\<lparr>ps_id = problem_code,
                            ps_name = (case p_name problem_data of None \<Rightarrow> problem_code | Some n \<Rightarrow> n)\<rparr>])
      else cc_main_summaries rest problems)"

text \<open>
  The second argument is what \<open>fetch_json\<close> gives for the contest: the body, or the
  exception raised (transport, status or decoding).  The method body is inside
  \<open>try ... except Exception\<close>.
\<close>

definition cc_scrape_contest_metadata :: "string \<Rightarrow> py_exn + cc_contest \<Rightarrow> MetadataResult" where
  "cc_scrape_contest_metadata contest_id fetched =
     (case fetched of
        Inl e \<Rightarrow> metadata_error (''Failed to fetch contest '' @ contest_id @ '': '' @ exn_str e)
      | Inr data \<Rightarrow>
          if cc_problems data = [] then metadata_error (''No problems found for contest '' @ contest_id)
          else \<lparr>md_success = True, md_error = [], md_contest_id = contest_id,
                 md_problems = cc_main_summaries (cc_problems data) [],
                 md_url = cc_BASE_URL @ ''/'' @ contest_id\<rparr>)"

subsection \<open>\<open>CodeChefScraper.scrape_contest_list\<close>\<close>

text \<open>The loop over \<open>all_contests\<close> that finds \<open>max_num\<close>.\<close>

fun cc_max_num :: "cc_listing list \<Rightarrow> nat \<Rightarrow> nat" where
  "cc_max_num [] max_num = max_num"
| "cc_max_num (contest # rest) max_num =
     (let contest_code = (case l_contest_code contest of None \<Rightarrow> [] | Some c \<Rightarrow> c) in
      if prefix ''START'' contest_code then
        (case match_START contest_code of
           None \<Rightarrow> cc_max_num rest max_num
         | Some digits \<Rightarrow> cc_max_num rest (max max_num (nat_of_digits digits)))
      else cc_max_num rest max_num)"

text \<open>The loop of \<open>fetch_divisions\<close> over \<open>child_contests.items()\<close>.\<close>

fun cc_divisions :: "string \<Rightarrow> (string \<times> cc_division) list \<Rightarrow> ContestSummary list \<Rightarrow> ContestSummary list" where
  "cc_divisions base_name [] divisions = divisions"
| "cc_divisions base_name ((div_key, div_data) # rest) divisions =
     (let div_code = (case dv_contest_code div_data of None \<Rightarrow> [] | Some c \<Rightarrow> c);
          div_num = (case dv_div_number div_data of None \<Rightarrow> [] | Some n \<Rightarrow> n) in
      if div_code \<noteq> [] \<and> div_num \<noteq> []
      then cc_divisions base_name rest
             (divisions @ [\<lparr>cs_id = div_code, cs_name = base_name,
                             cs_display_name = base_name @ '' (Div. '' @ div_num @ '')''\<rparr>])
      else cc_divisions base_name rest divisions)"

text \<open>
  \<open>fetch_divisions(i)\<close>.  \<open>fetch\<close> is \<open>fetch_json\<close> on the contest endpoint, as a function
  of the contest id.
\<close>

definition cc_fetch_divisions :: "(string \<Rightarrow> py_exn + cc_contest) \<Rightarrow> nat \<Rightarrow> ContestSummary list" where
  "cc_fetch_divisions fetch i =
     (case fetch (''START'' @ str_of_nat i) of
        Inl e \<Rightarrow> []
      | Inr parent_data \<Rightarrow> cc_divisions (''Starters '' @ str_of_nat i) (cc_child_contests parent_data) [])"

text \<open>
  The method: the catalog fetch is guarded by \<open>except httpx.HTTPStatusError\<close> only, so
  every other exception leaves the method (\<open>Inl\<close>).
\<close>

definition cc_scrape_contest_list ::
  "(nat \<Rightarrow> nat) \<Rightarrow> py_exn + cc_catalog \<Rightarrow> (string \<Rightarrow> py_exn + cc_contest) \<Rightarrow> py_exn + ContestListResult" where
  "cc_scrape_contest_list finish catalog fetch =
     (case catalog of
        Inl e \<Rightarrow>
          if exn_kind_of e = HTTPStatusError
          then Inr (contests_error (''Failed to fetch contests: '' @ exn_str e))
          else Inl e
      | Inr data \<Rightarrow>
          (let all_contests = future_contests data @ past_contests data;
               max_num = cc_max_num all_contests 0 in
           if max_num = 0 then Inr (contests_error ''No Starters contests found'')
           else Inr \<lparr>cl_success = True, cl_error = [],
                      cl_contests =
                        concat (as_completed finish
                                  (map (cc_fetch_divisions fetch) [1..<Suc max_num]))\<rparr>))"

subsection \<open>\<open>CodeChefScraper.stream_tests_for_category_async\<close>\<close>

text \<open>
  What the two fetches of \<open>run_one\<close> give for one problem: the problem endpoint of the
  API and the public page of the problem.
\<close>

record cc_problem_env =
  e_detail :: "py_exn + cc_problem_detail"
  e_page :: "py_exn + string"

text \<open>The comprehension that builds \<open>tests\<close>.\<close>

definition cc_tests :: "cc_sample list \<Rightarrow> TestCase list" where
  "cc_tests sample_tests =
     map (\<lambda>t. \<lparr>tc_input = strip (case s_input t of None \<Rightarrow> [] | Some s \<Rightarrow> s),
                tc_expected = strip (case s_output t of None \<Rightarrow> [] | Some s \<Rightarrow> s)\<rparr>)
         (filter (\<lambda>t. \<not> s_is_deleted t) sample_tests)"

text \<open>
  The \<open>try\<close> block of \<open>run_one\<close>: the first exception ends it.  \<open>ms_of\<close> stands for
  \<open>int(float(time_limit_str) * 1000)\<close>, floating-point arithmetic that is left to Python.
\<close>

definition cc_run_one_try ::
  "(string \<Rightarrow> py_exn + int) \<Rightarrow> cc_problem_env \<Rightarrow> py_exn + (TestCase list \<times> int \<times> rat \<times> bool)" where
  "cc_run_one_try ms_of env =
     (case e_detail env of
        Inl e \<Rightarrow> Inl e
      | Inr problem_data \<Rightarrow>
          (let tests = cc_tests (pd_sample_tests problem_data);
               time_limit_str = (case pd_max_timelimit problem_data of None \<Rightarrow> ''1'' | Some s \<Rightarrow> s) in
           case ms_of time_limit_str of
             Inl e \<Rightarrow> Inl e
           | Inr timeout_ms \<Rightarrow>
               (case e_page env of
                  Inl e \<Rightarrow> Inl e
                | Inr html \<Rightarrow>
                    (case extract_memory_limit html of
                       Inl e \<Rightarrow> Inl e
                     | Inr memory_mb \<Rightarrow> Inr (tests, timeout_ms, memory_mb, False)))))"

definition cc_run_one :: "(string \<Rightarrow> py_exn + int) \<Rightarrow> string \<Rightarrow> cc_problem_env \<Rightarrow> TestsResult" where
  "cc_run_one ms_of problem_code env =
     (case (case cc_run_one_try ms_of env of
              Inl e \<Rightarrow> ([], 1000, 256, False)
            | Inr r \<Rightarrow> r) of
        (tests, timeout_ms, memory_mb, interactive) \<Rightarrow>
          \<lparr>tr_problem_id = problem_code,
            tr_combined_input = (if tests = [] then [] else join ''\<newline>'' (map tc_input tests)),
            tr_combined_expected = (if tests = [] then [] else join ''\<newline>'' (map tc_expected tests)),
            tr_tests = tests,
            tr_timeout_ms = timeout_ms,
            tr_memory_mb = memory_mb,
            tr_interactive = interactive,
            tr_multi_test = False\<rparr>)"

text \<open>
  The method.  \<open>contest\<close> is the outcome of the fetch of the contest, \<open>env\<close> gives for each
  problem code what its two fetches produce, and the result is the list of the lines
  written, in order.
\<close>

definition cc_stream_tests_for_category_async ::
  "(nat \<Rightarrow> nat) \<Rightarrow> (string \<Rightarrow> py_exn + int) \<Rightarrow> string \<Rightarrow> py_exn + cc_contest
     \<Rightarrow> (string \<Rightarrow> cc_problem_env) \<Rightarrow> stream_item list" where
  "cc_stream_tests_for_category_async finish ms_of category_id contest env =
     (case contest of
        Inl e \<Rightarrow> [ErrorRecord (''Failed to fetch contest '' @ category_id @ '': '' @ exn_str e)]
      | Inr contest_data \<Rightarrow>
          (let all_problems = cc_problems contest_data in
           if all_problems = [] then [ErrorRecord (''No problems found for contest '' @ category_id)]
           else
             (let problems = filter (\<lambda>(code, data). p_category_name data = Some ''main'') all_problems in
              if problems = [] then [ErrorRecord (''No main problems found for contest '' @ category_id)]
              else map Payload
                     (as_completed finish
                        (map (\<lambda>problem_code. cc_run_one ms_of problem_code (env problem_code))
                             (map fst problems))))))"


section \<open>Codeforces: listing the contests\<close>

text \<open>
  The body of the answer of \<open>/api/contest.list\<close>, as \<open>r.json()\<close> returns it: a dict with
  an optional \<open>status\<close> and an optional \<open>result\<close>, the list of the contests; each contest
  is a dict whose keys \<open>phase\<close>, \<open>id\<close> and \<open>name\<close> may be absent.
\<close>

record cf_contest =
  c_phase :: "string option"
  c_id :: "int option"
  c_name :: "string option"

record cf_api =
  api_status :: "string option"
  api_result :: "cf_contest list option"

text \<open>
  The loop of \<open>CodeforcesScraper.scrape_contest_list\<close> over \<open>data["result"]\<close>, with the
  list \<open>contests\<close> built so far.  \<open>c["id"]\<close> and \<open>c["name"]\<close> raise \<open>KeyError\<close> on an
  absent key.
\<close>

fun cf_collect :: "cf_contest list \<Rightarrow> ContestSummary list \<Rightarrow> py_exn + ContestSummary list" where
  "cf_collect [] contests = Inr contests"
| "cf_collect (c # cs) contests =
     (if c_phase c \<noteq> Some ''FINISHED'' then cf_collect cs contests
      else (case c_id c of
              None \<Rightarrow> Inl (key_error ''id'')
            | Some i \<Rightarrow>
               (case c_name c of
                  None \<Rightarrow> Inl (key_error ''name'')
                | Some n \<Rightarrow>
                    cf_collect cs
                      (contests @ [\<lparr>cs_id = str_of_int i, cs_name = n, cs_display_name = n\<rparr>]))))"

text \<open>
  \<open>CodeforcesScraper.scrape_contest_list\<close>.  The argument is what the three calls
  \<open>requests.get\<close>, \<open>raise_for_status\<close> and \<open>r.json()\<close> produce together: the decoded
  body, or the exception one of them raised.  The whole body of the method is inside
  \<open>try ... except Exception\<close>.
\<close>

definition cf_scrape_contest_list :: "py_exn + cf_api \<Rightarrow> ContestListResult" where
  "cf_scrape_contest_list response =
     (case response of
        Inl e \<Rightarrow> contests_error (exn_str e)
      | Inr data \<Rightarrow>
          if api_status data \<noteq> Some ''OK'' then contests_error ''Invalid API response''
          else (case api_result data of
                  None \<Rightarrow> contests_error (exn_str (key_error ''result''))
                | Some entries \<Rightarrow>
                    (case cf_collect entries [] of
                       Inl e \<Rightarrow> contests_error (exn_str e)
                     | Inr contests \<Rightarrow>
                         if contests = [] then contests_error ''No contests found''
                         else \<lparr>cl_success = True, cl_error = [], cl_contests = contests\<rparr>)))"


section \<open>The parsed page\<close>

text \<open>
  \<open>BeautifulSoup(html, "html.parser")\<close> is the work of a library; the model starts from
  the tree it returns.  The strings of the tree are those that \<open>get_text\<close> reads: comments
  and the contents of \<open>script\<close>, \<open>style\<close> and \<open>template\<close> elements, which \<open>get_text\<close> leaves
  out, are not part of it.  A node is a string of the page (a \<open>NavigableString\<close>) or a tag
  with its name, the tokens of its \<open>class\<close> attribute (what \<open>tag.get("class", [])\<close>
  gives), its other attributes and its children.  The soup itself is the root tag.
\<close>

datatype node = Text string | Tag string "string list" "(string \<times> string) list" "node list"

text \<open>\<open>tag.descendants\<close>: every node below the tag, in document order.\<close>

fun descendants :: "node \<Rightarrow> node list" where
  "descendants (Text s) = []"
| "descendants (Tag n cls attrs kids) = concat (map (\<lambda>k. k # descendants k) kids)"

text \<open>
  The same walk, each node with its ancestors (\<open>node.parents\<close>, the nearest first);
  \<open>ancestors\<close> are the ancestors of the start node.
\<close>

fun descendants_with_parents :: "node list \<Rightarrow> node \<Rightarrow> (node \<times> node list) list" where
  "descendants_with_parents ancestors (Text s) = []"
| "descendants_with_parents ancestors (Tag n cls attrs kids) =
     concat (map (\<lambda>k. (k, Tag n cls attrs kids # ancestors)
                        # descendants_with_parents (Tag n cls attrs kids # ancestors) k) kids)"

text \<open>The filters \<open>(name)\<close> and \<open>(name, class_=c)\<close> of \<open>find\<close>, \<open>find_all\<close> and \<open>find_parent\<close>.\<close>

fun is_tag :: "string \<Rightarrow> node \<Rightarrow> bool" where
  "is_tag name (Text s) = False"
| "is_tag name (Tag n cls attrs kids) = (n = name)"

fun has_class :: "string \<Rightarrow> string \<Rightarrow> node \<Rightarrow> bool" where
  "has_class name c (Text s) = False"
| "has_class name c (Tag n cls attrs kids) = (n = name \<and> c \<in> set cls)"

definition find_all :: "string \<Rightarrow> string \<Rightarrow> node \<Rightarrow> node list" where
  "find_all name c t = filter (has_class name c) (descendants t)"

definition find_first :: "string \<Rightarrow> string \<Rightarrow> node \<Rightarrow> node option" where
  "find_first name c t = (case find_all name c t of [] \<Rightarrow> None | x # xs \<Rightarrow> Some x)"

definition find_tag :: "string \<Rightarrow> node \<Rightarrow> node option" where
  "find_tag name t = (case filter (is_tag name) (descendants t) of [] \<Rightarrow> None | x # xs \<Rightarrow> Some x)"

definition find_parent :: "string \<Rightarrow> string \<Rightarrow> node list \<Rightarrow> node option" where
  "find_parent name c parents = (case filter (has_class name c) parents of [] \<Rightarrow> None | x # xs \<Rightarrow> Some x)"

fun class_tokens :: "node \<Rightarrow> string list" where
  "class_tokens (Text s) = []"
| "class_tokens (Tag n cls attrs kids) = cls"

fun get_attr :: "node \<Rightarrow> string \<Rightarrow> string option" where
  "get_attr (Text s) key = None"
| "get_attr (Tag n cls attrs kids) key = map_of attrs key"

text \<open>
  \<open>tag.get_text(separator, strip)\<close>: the strings below the tag in document order, joined
  by the separator; with \<open>strip=True\<close> each string is stripped and the empty ones are left
  out.
\<close>

fun all_strings :: "node \<Rightarrow> string list" where
  "all_strings (Text s) = [s]"
| "all_strings (Tag n cls attrs kids) = concat (map all_strings kids)"

definition get_text :: "string \<Rightarrow> bool \<Rightarrow> node \<Rightarrow> string" where
  "get_text separator strip_each t =
     (if strip_each then join separator (filter (\<lambda>s. s \<noteq> []) (map strip (all_strings t)))
      else join separator (all_strings t))"


section \<open>Codeforces: the extraction engine (scrapers/codeforces.py)\<close>

subsection \<open>The regular expressions\<close>

text \<open>
  The class \<open>\w\<close> of \<open>re\<close> on a \<open>str\<close> pattern, below 256: the characters that
  \<open>isalnum()\<close> accepts, and the underscore.
\<close>

definition is_word :: "char \<Rightarrow> bool" where
  "is_word c =
     (let n = (of_char c :: nat) in
      (48 \<le> n \<and> n \<le> 57) \<or> (65 \<le> n \<and> n \<le> 90) \<or> n = 95 \<or> (97 \<le> n \<and> n \<le> 122)
      \<or> n \<in> set [170, 178, 179, 181, 185, 186, 188, 189, 190]
      \<or> (192 \<le> n \<and> n \<le> 214) \<or> (216 \<le> n \<and> n \<le> 246) \<or> 248 \<le> n)"

text \<open>
  \<open>\btest-example-line-(\d+)\b\<close> at one position of the text: \<open>prev\<close> is the character
  before the position, \<open>s\<close> the text from it.  The first \<open>\b\<close> stands before the word
  character \<open>t\<close>, so it asks that no word character precedes.  \<open>\d+\<close> takes the longest
  run of digits, and the last \<open>\b\<close> asks that no word character follows; a shorter run of
  digits would be followed by a digit.  The result is the group.
\<close>

definition match_gid_at :: "char option \<Rightarrow> string \<Rightarrow> string option" where
  "match_gid_at prev s =
     (let ds = takeWhile is_digit (drop 18 s);
          rest = dropWhile is_digit (drop 18 s) in
      if (case prev of None \<Rightarrow> True | Some p \<Rightarrow> \<not> is_word p)
         \<and> prefix ''test-example-line-'' s
         \<and> ds \<noteq> []
         \<and> (case rest of [] \<Rightarrow> True | c # cs \<Rightarrow> \<not> is_word c)
      then Some ds else None)"

text \<open>\<open>re.search\<close> of it: the leftmost position that matches.\<close>

fun search_gid :: "char option \<Rightarrow> string \<Rightarrow> string option" where
  "search_gid prev [] = match_gid_at prev []"
| "search_gid prev (c # cs) =
     (case match_gid_at prev (c # cs) of
        Some ds \<Rightarrow> Some ds
      | None \<Rightarrow> search_gid (Some c) cs)"

text \<open>
  \<open>re.search(r"(\d+)\s*seconds?", txt)\<close> and \<open>re.search(r"(\d+)\s*megabytes?", txt)\<close>:
  digits, whitespace and the word \<open>w\<close> (the optional final \<open>s\<close> changes neither whether
  the pattern matches nor the group).
\<close>

definition match_number_word :: "string \<Rightarrow> string \<Rightarrow> string option" where
  "match_number_word w s =
     (let ds = takeWhile is_digit s;
          rest = dropWhile is_space (dropWhile is_digit s) in
      if ds \<noteq> [] \<and> prefix w rest then Some ds else None)"

fun search_number_word :: "string \<Rightarrow> string \<Rightarrow> string option" where
  "search_number_word w [] = match_number_word w []"
| "search_number_word w (c # cs) =
     (case match_number_word w (c # cs) of
        Some ds \<Rightarrow> Some ds
      | None \<Rightarrow> search_number_word w cs)"

subsection \<open>\<open>_text_from_pre\<close>, \<open>_extract_limits\<close>, \<open>_extract_title\<close>, \<open>_is_interactive\<close>\<close>

definition text_from_pre :: "node \<Rightarrow> string" where
  "text_from_pre pre =
     strip (map (\<lambda>c. if c = CHR 0xA0 then CHR '' '' else c)
              (filter (\<lambda>c. c \<noteq> CHR 0x0D) (get_text ''\<newline>'' False pre)))"

definition extract_limits :: "node \<Rightarrow> int \<times> rat" where
  "extract_limits block =
     (let timeout_ms =
            (case find_first ''div'' ''time-limit'' block of
               None \<Rightarrow> 0
             | Some tdiv \<Rightarrow>
                 (case search_number_word ''second'' (get_text '' '' True tdiv) of
                    None \<Rightarrow> 0
                  | Some ds \<Rightarrow> int (nat_of_digits ds) * 1000));
          memory_mb =
            (case find_first ''div'' ''memory-limit'' block of
               None \<Rightarrow> 0
             | Some mdiv \<Rightarrow>
                 (case search_number_word ''megabyte'' (get_text '' '' True mdiv) of
                    None \<Rightarrow> 0
                  | Some ds \<Rightarrow> of_nat (nat_of_digits ds)))
      in (timeout_ms, memory_mb))"

definition extract_title :: "node \<Rightarrow> string \<times> string" where
  "extract_title block =
     (case find_first ''div'' ''title'' block of
        None \<Rightarrow> ([], [])
      | Some t \<Rightarrow>
          (let s = get_text '' '' True t in
           case dropWhile (\<lambda>c. c \<noteq> CHR ''.'') s of
             [] \<Rightarrow> ([], strip s)
           | dot # after \<Rightarrow> (upper (strip (takeWhile (\<lambda>c. c \<noteq> CHR ''.'') s)), strip after)))"

definition is_interactive :: "node \<Rightarrow> bool" where
  "is_interactive block =
     (let txt = (case find_first ''div'' ''problem-statement'' block of
                   Some ps \<Rightarrow> get_text '' '' True ps
                 | None \<Rightarrow> get_text '' '' True block)
      in sublist ''This is an interactive problem'' txt)"

subsection \<open>\<open>_group_lines_by_id\<close>\<close>

text \<open>
  A \<open>dict[int, list[str]]\<close> is the list of its items in insertion order.
  \<open>dict_extend d k v\<close> is \<open>d.setdefault(k, []).extend(v)\<close>, \<open>dict_pop d k\<close> is
  \<open>d.pop(k, None)\<close>, and \<open>dict_get d k\<close> is \<open>d[k]\<close> for a key of \<open>d\<close>.
\<close>

type_synonym groups = "(nat \<times> string list) list"

fun dict_extend :: "groups \<Rightarrow> nat \<Rightarrow> string list \<Rightarrow> groups" where
  "dict_extend [] k v = [(k, v)]"
| "dict_extend ((k', l) # rest) k v =
     (if k' = k then (k', l @ v) # rest else (k', l) # dict_extend rest k v)"

definition dict_pop :: "groups \<Rightarrow> nat \<Rightarrow> groups" where
  "dict_pop d k = filter (\<lambda>(k', l). k' \<noteq> k) d"

definition dict_get :: "groups \<Rightarrow> nat \<Rightarrow> string list" where
  "dict_get d k = (case map_of d k of None \<Rightarrow> [] | Some l \<Rightarrow> l)"

text \<open>The loop over the \<open>div.test-example-line\<close> elements of one \<open>pre\<close>.\<close>

fun group_lines_loop :: "node list \<Rightarrow> groups \<Rightarrow> groups" where
  "group_lines_loop [] groups = groups"
| "group_lines_loop (d # ds) groups =
     (case search_gid None (join '' '' (class_tokens d)) of
        None \<Rightarrow> group_lines_loop ds groups
      | Some m \<Rightarrow> group_lines_loop ds (dict_extend groups (nat_of_digits m) [get_text [] False d]))"

definition group_lines_by_id :: "node \<Rightarrow> groups" where
  "group_lines_by_id pre = group_lines_loop (find_all ''div'' ''test-example-line'' pre) []"

subsection \<open>\<open>_extract_samples\<close>\<close>

text \<open>
  \<open>[x.find("pre") for x in st.find_all("div", class_=c) if x.find("pre")]\<close> (a tag is
  always truthy, so the filter keeps the elements that have a \<open>pre\<close>).
\<close>

definition pres_of :: "string \<Rightarrow> node \<Rightarrow> node list" where
  "pres_of c st = List.map_filter (find_tag ''pre'') (find_all ''div'' c st)"

text \<open>The two nested loops that fill \<open>inputs_by_gid\<close> and \<open>outputs_by_gid\<close>.\<close>

fun merge_groups :: "groups \<Rightarrow> groups \<Rightarrow> groups" where
  "merge_groups by_gid [] = by_gid"
| "merge_groups by_gid ((k, v) # g) = merge_groups (dict_extend by_gid k v) g"

fun collect_groups :: "node list \<Rightarrow> groups \<Rightarrow> groups" where
  "collect_groups [] by_gid = by_gid"
| "collect_groups (p # ps) by_gid = collect_groups ps (merge_groups by_gid (group_lines_by_id p))"

text \<open>The positional pairing at the end of the function.\<close>

definition ungrouped_samples :: "node list \<Rightarrow> node list \<Rightarrow> TestCase list" where
  "ungrouped_samples input_pres output_pres =
     (let inputs = map text_from_pre input_pres;
          outputs = map text_from_pre output_pres;
          n = min (length inputs) (length outputs)
      in map (\<lambda>i. \<lparr>tc_input = inputs ! i, tc_expected = outputs ! i\<rparr>) [0..<n])"

definition extract_samples :: "node \<Rightarrow> TestCase list \<times> bool" where
  "extract_samples block =
     (case find_first ''div'' ''sample-test'' block of
        None \<Rightarrow> ([], False)
      | Some st \<Rightarrow>
          (let input_pres = pres_of ''input'' st;
               output_pres = pres_of ''output'' st;
               has_grouped = list_ex (\<lambda>p. find_first ''div'' ''test-example-line'' p \<noteq> None)
                               (input_pres @ output_pres)
           in if has_grouped then
                (let inputs_by_gid = dict_pop (collect_groups input_pres []) 0;
                     outputs_by_gid = dict_pop (collect_groups output_pres []) 0;
                     keys = sorted_list_of_set
                              (set (map fst inputs_by_gid) \<inter> set (map fst outputs_by_gid))
                 in if keys \<noteq> [] then
                      (map (\<lambda>k. \<lparr>tc_input = strip (join ''\<newline>'' (dict_get inputs_by_gid k)),
                                  tc_expected = strip (join ''\<newline>'' (dict_get outputs_by_gid k))\<rparr>)
                           keys,
                       True)
                    else (ungrouped_samples input_pres output_pres, False))
              else (ungrouped_samples input_pres output_pres, False)))"

subsection \<open>\<open>_parse_all_blocks\<close>\<close>

record block_record =
  b_letter :: string
  b_name :: string
  b_combined_input :: string
  b_combined_expected :: string
  b_tests :: "TestCase list"
  b_timeout_ms :: int
  b_memory_mb :: rat
  b_interactive :: bool
  b_multi_test :: bool

text \<open>
  The first two statements of the loop body: the holder and the letter.  \<open>parents\<close> are the
  ancestors of the block.  A holder without the attribute gives \<open>None.strip()\<close>, an
  \<open>AttributeError\<close>.
\<close>

definition block_letter :: "node list \<Rightarrow> py_exn + string" where
  "block_letter parents =
     (case find_parent ''div'' ''problemindexholder'' parents of
        None \<Rightarrow> Inr (upper (strip []))
      | Some holder \<Rightarrow>
          (case get_attr holder ''problemindex'' of
             None \<Rightarrow> Inl (Exn AttributeError
                           ([CHR 0x27] @ ''NoneType'' @ [CHR 0x27] @ '' object has no attribute ''
                            @ [CHR 0x27] @ ''strip'' @ [CHR 0x27]))
           | Some v \<Rightarrow> Inr (upper (strip v))))"

text \<open>The rest of the loop body, for a block whose letter is not empty.\<close>

definition parse_block :: "string \<Rightarrow> node \<Rightarrow> block_record" where
  "parse_block letter b =
     (case extract_samples b of
        (raw_samples, is_grouped) \<Rightarrow>
          (case extract_limits b of
             (timeout_ms, memory_mb) \<Rightarrow>
               (if is_grouped \<and> raw_samples \<noteq> [] then
                  \<lparr>b_letter = letter,
                    b_name = snd (extract_title b),
                    b_combined_input =
                      str_of_nat (length raw_samples) @ ''\<newline>'' @ join ''\<newline>'' (map tc_input raw_samples),
                    b_combined_expected = join ''\<newline>'' (map tc_expected raw_samples),
                    b_tests =
                      map (\<lambda>tc. \<lparr>tc_input = ''1\<newline>'' @ tc_input tc, tc_expected = tc_expected tc\<rparr>)
                          raw_samples,
                    b_timeout_ms = timeout_ms,
                    b_memory_mb = memory_mb,
                    b_interactive = is_interactive b,
                    b_multi_test = is_grouped\<rparr>
                else
                  \<lparr>b_letter = letter,
                    b_name = snd (extract_title b),
                    b_combined_input = join ''\<newline>'' (map tc_input raw_samples),
                    b_combined_expected = join ''\<newline>'' (map tc_expected raw_samples),
                    b_tests = raw_samples,
                    b_timeout_ms = timeout_ms,
                    b_memory_mb = memory_mb,
                    b_interactive = is_interactive b,
                    b_multi_test = is_grouped\<rparr>)))"

fun parse_blocks_loop :: "(node \<times> node list) list \<Rightarrow> block_record list \<Rightarrow> py_exn + block_record list" where
  "parse_blocks_loop [] out = Inr out"
| "parse_blocks_loop ((b, parents) # rest) out =
     (case block_letter parents of
        Inl e \<Rightarrow> Inl e
      | Inr letter \<Rightarrow>
          if letter = [] then parse_blocks_loop rest out
          else parse_blocks_loop rest (out @ [parse_block letter b]))"

definition parse_all_blocks :: "node \<Rightarrow> py_exn + block_record list" where
  "parse_all_blocks soup =
     parse_blocks_loop
       (filter (\<lambda>(b, parents). has_class ''div'' ''problem-statement'' b)
          (descendants_with_parents [] soup))
       []"

subsection \<open>The operations of \<open>CodeforcesScraper\<close> on a contest page\<close>

text \<open>
  In both operations the argument is the outcome of \<open>_fetch_problems_html\<close>: the page (as
  the parser reads it), or the exception of the fetch.
\<close>

definition cf_scrape_contest_metadata :: "string \<Rightarrow> py_exn + node \<Rightarrow> MetadataResult" where
  "cf_scrape_contest_metadata contest_id fetched =
     (case fetched of
        Inl e \<Rightarrow> metadata_error (exn_str e)
      | Inr soup \<Rightarrow>
          (case parse_all_blocks soup of
             Inl e \<Rightarrow> metadata_error (exn_str e)
           | Inr blocks \<Rightarrow>
               (let problems = map (\<lambda>b. \<lparr>ps_id = lower (upper (b_letter b)), ps_name = b_name b\<rparr>) blocks in
                if problems = [] then metadata_error (''No problems found for contest '' @ contest_id)
                else \<lparr>md_success = True, md_error = [], md_contest_id = contest_id,
                       md_problems = problems,
                       md_url = ''https://codeforces.com/contest/'' @ contest_id @ ''/problem/%s''\<rparr>)))"

definition cf_payload :: "block_record \<Rightarrow> TestsResult" where
  "cf_payload b =
     \<lparr>tr_problem_id = lower (b_letter b),
      tr_combined_input = b_combined_input b,
      tr_combined_expected = b_combined_expected b,
      tr_tests = b_tests b,
      tr_timeout_ms = b_timeout_ms b,
      tr_memory_mb = b_memory_mb b,
      tr_interactive = b_interactive b,
      tr_multi_test = b_multi_test b\<rparr>"

text \<open>
  \<open>stream_tests_for_category_async\<close> has no \<open>try\<close>: an exception of the fetch or of
  \<open>_parse_all_blocks\<close> leaves the method (\<open>Inl\<close>) before anything is written; otherwise the
  result is the list of the payloads written, in order.
\<close>

definition cf_stream_tests_for_category_async :: "py_exn + node \<Rightarrow> py_exn + TestsResult list" where
  "cf_stream_tests_for_category_async fetched =
     (case fetched of
        Inl e \<Rightarrow> Inl e
      | Inr soup \<Rightarrow>
          (case parse_all_blocks soup of
             Inl e \<Rightarrow> Inl e
           | Inr blocks \<Rightarrow> Inr (map cf_payload blocks)))"


section \<open>Vocabulary of the statements, and the inputs of the examples\<close>

subsection \<open>Codeforces contest listing\<close>

definition cf_finished :: "cf_contest \<Rightarrow> bool" where
  "cf_finished c = (c_phase c = Some ''FINISHED'')"

text \<open>
  \<open>cf_listed s c\<close>: the summary \<open>s\<close> is the listing of the catalog entry \<open>c\<close>, its id as
  decimal text and its name as both name and display name.
\<close>

definition cf_listed :: "ContestSummary \<Rightarrow> cf_contest \<Rightarrow> bool" where
  "cf_listed s c =
     (case (c_id c, c_name c) of
        (Some i, Some n) \<Rightarrow> s = \<lparr>cs_id = str_of_int i, cs_name = n, cs_display_name = n\<rparr>
      | _ \<Rightarrow> False)"

text \<open>The catalog entry carries an id and a name, the two keys the loop reads with \<open>c[...]\<close>.\<close>

definition cf_complete :: "cf_contest \<Rightarrow> bool" where
  "cf_complete c = (c_id c \<noteq> None \<and> c_name c \<noteq> None)"

definition fixture_entries :: "cf_contest list" where
  "fixture_entries =
     [\<lparr>c_phase = Some ''FINISHED'', c_id = Some 1550, c_name = Some ''Educational Round 155''\<rparr>,
      \<lparr>c_phase = Some ''BEFORE'', c_id = Some 2000, c_name = Some ''Upcoming Round''\<rparr>,
      \<lparr>c_phase = Some ''FINISHED'', c_id = Some 1000, c_name = Some ''Round 1000''\<rparr>]"

definition fixture_catalog :: cf_api where
  "fixture_catalog = \<lparr>api_status = Some ''OK'', api_result = Some fixture_entries\<rparr>"

definition unfinished_entries :: "cf_contest list" where
  "unfinished_entries =
     [\<lparr>c_phase = Some ''BEFORE'', c_id = Some 2000, c_name = Some ''Upcoming Round''\<rparr>]"

definition unfinished_catalog :: cf_api where
  "unfinished_catalog = \<lparr>api_status = Some ''OK'', api_result = Some unfinished_entries\<rparr>"

text \<open>
  A catalog whose second finished entry has no name, and an answer whose status is not
  \<open>OK\<close> although it carries the entries.
\<close>

definition nameless_entries :: "cf_contest list" where
  "nameless_entries =
     [\<lparr>c_phase = Some ''FINISHED'', c_id = Some 1550, c_name = Some ''Educational Round 155''\<rparr>,
      \<lparr>c_phase = Some ''FINISHED'', c_id = Some 1000, c_name = None\<rparr>]"

definition nameless_catalog :: cf_api where
  "nameless_catalog = \<lparr>api_status = Some ''OK'', api_result = Some nameless_entries\<rparr>"

definition failed_status_catalog :: cf_api where
  "failed_status_catalog = \<lparr>api_status = Some ''FAILED'', api_result = Some fixture_entries\<rparr>"


subsection \<open>Example pages\<close>

text \<open>A tag without attributes other than its classes, and a line marker of a group.\<close>

definition el :: "string \<Rightarrow> string list \<Rightarrow> node list \<Rightarrow> node" where
  "el n cls kids = Tag n cls [] kids"

definition example_line :: "nat \<Rightarrow> string \<Rightarrow> node" where
  "example_line g s =
     Tag ''div'' [''test-example-line'', ''test-example-line-even'', ''test-example-line-'' @ str_of_nat g] []
       [Text s]"

definition example_header :: node where
  "example_header =
     el ''div'' [''header'']
       [el ''div'' [''title''] [Text ''A. Sum''],
        el ''div'' [''time-limit''] [el ''div'' [''property-title''] [Text ''time limit per test''], Text ''2 seconds''],
        el ''div'' [''memory-limit''] [el ''div'' [''property-title''] [Text ''memory limit per test''], Text ''256 megabytes'']]"

definition page_of :: "(string \<times> node) list \<Rightarrow> node" where
  "page_of problems =
     Tag ''[document]'' [] []
       (map (\<lambda>(index, block). Tag ''div'' [''problemindexholder''] [(''problemindex'', index)]
                                  [el ''div'' [''ttypography''] [block]])
            problems)"

text \<open>
  The page of the round-trip property: one problem with an ungrouped pair (\<open>1 2\<close> and
  \<open>3\<close>) and a grouped sample whose lines are two marker elements of group 1.
\<close>

definition mixed_sample_test :: node where
  "mixed_sample_test =
     el ''div'' [''sample-test'']
       [el ''div'' [''input''] [el ''div'' [''title''] [Text ''Input''], el ''pre'' [] [Text ''1 2'']],
        el ''div'' [''output''] [el ''div'' [''title''] [Text ''Output''], el ''pre'' [] [Text ''3'']],
        el ''div'' [''input'']
          [el ''div'' [''title''] [Text ''Input''],
           el ''pre'' [] [example_line 1 ''4 5'', example_line 1 ''6'']],
        el ''div'' [''output'']
          [el ''div'' [''title''] [Text ''Output''],
           el ''pre'' [] [example_line 1 ''9'', example_line 1 ''6'']]]"

definition mixed_block :: node where
  "mixed_block =
     el ''div'' [''problem-statement'']
       [example_header, el ''div'' [''sample-tests''] [mixed_sample_test]]"





text \<open>A problem with one plain pair.\<close>

definition plain_block :: node where
  "plain_block =
     el ''div'' [''problem-statement'']
       [example_header,
        el ''div'' [''sample-tests'']
          [el ''div'' [''sample-test'']
             [el ''div'' [''input''] [el ''div'' [''title''] [Text ''Input''], el ''pre'' [] [Text ''1 2'']],
              el ''div'' [''output''] [el ''div'' [''title''] [Text ''Output''], el ''pre'' [] [Text ''3'']]]]]"

text \<open>A page of two problems: the plain pair in the first, the grouped sample in the second.\<close>

definition two_block_page :: node where
  "two_block_page = page_of [(''A'', plain_block), (''B'', mixed_block)]"

text \<open>A page whose holder has no \<open>problemindex\<close> attribute.\<close>

definition page_without_index :: node where
  "page_without_index =
     Tag ''[document]'' [] []
       [Tag ''div'' [''problemindexholder''] [] [el ''div'' [''ttypography''] [plain_block]]]"

subsection \<open>Example answers of the CodeChef API\<close>

text \<open>A contest that declares one problem, which is not in the category \<open>main\<close>.\<close>

definition practice_only_contest :: cc_contest where
  "practice_only_contest =
     \<lparr>cc_problems = [(''WARMUP'', \<lparr>p_category_name = Some ''practice'', p_name = Some ''Warm-up''\<rparr>)],
      cc_child_contests = []\<rparr>"

definition timed_out :: py_exn where
  "timed_out = Exn TimeoutException ''timed out''"


subsection \<open>Vocabulary of the combination step\<close>





text \<open>The records that the two example pages give.\<close>

definition mixed_record :: TestsResult where
  "mixed_record =
     \<lparr>tr_problem_id = ''a'', tr_combined_input = ''1\<newline>4 5\<newline>6'',
      tr_combined_expected = ''9\<newline>6'',
      tr_tests = [\<lparr>tc_input = ''1\<newline>4 5\<newline>6'', tc_expected = ''9\<newline>6''\<rparr>],
      tr_timeout_ms = 2000, tr_memory_mb = 256, tr_interactive = False,
      tr_multi_test = True\<rparr>"

definition plain_record :: TestsResult where
  "plain_record =
     \<lparr>tr_problem_id = ''b'', tr_combined_input = ''1 2'',
      tr_combined_expected = ''3'',
      tr_tests = [\<lparr>tc_input = ''1 2'', tc_expected = ''3''\<rparr>],
      tr_timeout_ms = 2000, tr_memory_mb = 256, tr_interactive = False,
      tr_multi_test = False\<rparr>"

definition two_block_records :: "TestsResult list" where
  "two_block_records = [plain_record\<lparr>tr_problem_id := ''a''\<rparr>, mixed_record\<lparr>tr_problem_id := ''b''\<rparr>]"


subsection \<open>Vocabulary of the grouped extraction\<close>











subsection \<open>Vocabulary of the problem ids\<close>

text \<open>
  The index letters of a page: for each problem block in the order of the page the
  letter that \<open>_parse_all_blocks\<close> reads for it (stripped, upper case), the blocks without
  a letter left out.
\<close>

definition block_letters :: "node \<Rightarrow> string list" where
  "block_letters soup =
     filter (\<lambda>l. l \<noteq> [])
       (map (\<lambda>(b, parents). case block_letter parents of Inl e \<Rightarrow> [] | Inr l \<Rightarrow> l)
            (filter (\<lambda>(b, parents). has_class ''div'' ''problem-statement'' b)
               (descendants_with_parents [] soup)))"

text \<open>The problem ids of the payloads among the lines written.\<close>

definition payload_ids :: "stream_item list \<Rightarrow> string list" where
  "payload_ids items =
     concat (map (\<lambda>item. case item of ErrorRecord msg \<Rightarrow> [] | Payload r \<Rightarrow> [tr_problem_id r]) items)"

definition cc_is_main :: "string \<times> cc_problem \<Rightarrow> bool" where
  "cc_is_main kv = (p_category_name (snd kv) = Some ''main'')"

text \<open>A page with two problems whose index letters differ in case only.\<close>

definition duplicate_index_page :: node where
  "duplicate_index_page = page_of [(''A'', plain_block), (''a'', plain_block)]"

text \<open>A contest whose one main problem has the empty code, and fetches that all time out.\<close>

definition empty_code_contest :: cc_contest where
  "empty_code_contest =
     \<lparr>cc_problems = [([], \<lparr>p_category_name = Some ''main'', p_name = None\<rparr>)],
      cc_child_contests = []\<rparr>"

definition two_main_contest :: cc_contest where
  "two_main_contest =
     \<lparr>cc_problems =
        [(''P1'', \<lparr>p_category_name = Some ''main'', p_name = Some ''One''\<rparr>),
         (''P0'', \<lparr>p_category_name = Some ''practice'', p_name = Some ''Zero''\<rparr>),
         (''P2'', \<lparr>p_category_name = Some ''main'', p_name = Some ''Two''\<rparr>)],
      cc_child_contests = []\<rparr>"

definition all_fetches_fail :: "string \<Rightarrow> cc_problem_env" where
  "all_fetches_fail problem_code = \<lparr>e_detail = Inl timed_out, e_page = Inl timed_out\<rparr>"

text \<open>
  A conversion of the time limit for the examples: \<open>int(float(s) * 1000)\<close> on a string of
  digits.
\<close>

definition plain_ms_of :: "string \<Rightarrow> py_exn + int" where
  "plain_ms_of s = Inr (int (nat_of_digits s) * 1000)"


subsection \<open>Vocabulary of the CodeChef stream\<close>

text \<open>The codes of the problems of category \<open>main\<close>, in the order of the problems map.\<close>

definition main_codes :: "cc_contest \<Rightarrow> string list" where
  "main_codes data = map fst (filter cc_is_main (cc_problems data))"

text \<open>The record of the fallback defaults for a problem.\<close>

definition fallback_record :: "string \<Rightarrow> TestsResult" where
  "fallback_record problem_code =
     \<lparr>tr_problem_id = problem_code, tr_combined_input = [], tr_combined_expected = [],
      tr_tests = [], tr_timeout_ms = 1000, tr_memory_mb = 256, tr_interactive = False,
      tr_multi_test = False\<rparr>"

text \<open>
  Some step of the work on one problem raises: the fetch of the problem endpoint (or the
  decoding of its body), the conversion of the time limit, the fetch of the public page,
  or the conversion of the memory limit found in it.
\<close>

definition some_step_raises :: "(string \<Rightarrow> py_exn + int) \<Rightarrow> cc_problem_env \<Rightarrow> bool" where
  "some_step_raises ms_of env =
     (isl (e_detail env)
      \<or> isl (ms_of (case pd_max_timelimit (projr (e_detail env)) of None \<Rightarrow> ''1'' | Some s \<Rightarrow> s))
      \<or> isl (e_page env)
      \<or> isl (extract_memory_limit (projr (e_page env))))"

text \<open>The lines written other than the payload of problem \<open>p\<close>.\<close>

definition sibling_records :: "string \<Rightarrow> stream_item list \<Rightarrow> stream_item list" where
  "sibling_records p items =
     filter (\<lambda>item. case item of ErrorRecord msg \<Rightarrow> True | Payload r \<Rightarrow> tr_problem_id r \<noteq> p) items"

text \<open>
  An environment in which the page of \<open>P1\<close> cannot be fetched and \<open>P2\<close> has one sample
  and a page with a memory limit.
\<close>

definition one_fails_env :: "string \<Rightarrow> cc_problem_env" where
  "one_fails_env problem_code =
     (if problem_code = ''P1''
      then \<lparr>e_detail = Inr \<lparr>pd_sample_tests = [\<lparr>s_input = Some ''1 2'', s_output = Some ''3'', s_is_deleted = False\<rparr>],
                             pd_max_timelimit = Some ''2''\<rparr>,
             e_page = Inl timed_out\<rparr>
      else \<lparr>e_detail = Inr \<lparr>pd_sample_tests =
                               [\<lparr>s_input = Some '' 5 '', s_output = Some ''25\<newline>'', s_is_deleted = False\<rparr>,
                                \<lparr>s_input = Some ''6'', s_output = Some ''36'', s_is_deleted = True\<rparr>],
                             pd_max_timelimit = None\<rparr>,
             e_page = Inr ''<p>Memory Limit: 1.5 GB</p>''\<rparr>)"

definition none_fails_env :: "string \<Rightarrow> cc_problem_env" where
  "none_fails_env problem_code =
     (if problem_code = ''P1''
      then \<lparr>e_detail = Inr \<lparr>pd_sample_tests = [\<lparr>s_input = Some ''1 2'', s_output = Some ''3'', s_is_deleted = False\<rparr>],
                             pd_max_timelimit = Some ''2''\<rparr>,
             e_page = Inr ''no limit here''\<rparr>
      else one_fails_env problem_code)"

definition p2_record :: TestsResult where
  "p2_record =
     \<lparr>tr_problem_id = ''P2'', tr_combined_input = ''5'', tr_combined_expected = ''25'',
      tr_tests = [\<lparr>tc_input = ''5'', tc_expected = ''25''\<rparr>], tr_timeout_ms = 1000,
      tr_memory_mb = 1536, tr_interactive = False, tr_multi_test = False\<rparr>"


subsection \<open>Vocabulary of the generation discovery\<close>












subsection \<open>A page whose memory limit is not a number\<close>

text \<open>
  The answers for a problem with one sample and a time limit, whose public page holds the
  words \<open>Memory Limit. GB\<close>.
\<close>

definition dot_page_env :: cc_problem_env where
  "dot_page_env =
     \<lparr>e_detail = Inr \<lparr>pd_sample_tests = [\<lparr>s_input = Some ''1 2'', s_output = Some ''3'', s_is_deleted = False\<rparr>],
                        pd_max_timelimit = Some ''2''\<rparr>,
      e_page = Inr ''<p>Exceeding the Memory Limit. GB-sized arrays do not fit.</p>''\<rparr>"


section \<open>Grouped samples are never empty\<close>


section \<open>\<open>as_completed\<close> yields every result once\<close>

lemma mset_as_completed: "mset (as_completed finish tasks) = mset tasks"
proof -
  have "map snd (zip (map finish [0..<length tasks]) tasks) = tasks"
    by (simp add: map_snd_zip)
  then have "image_mset snd (mset (zip (map finish [0..<length tasks]) tasks)) = mset tasks"
    by (metis mset_map)
  then show ?thesis by (simp add: as_completed_def)
qed

lemma set_as_completed: "set (as_completed finish tasks) = set tasks"
  using mset_as_completed [of finish tasks] by (metis set_mset_mset)

lemma length_as_completed: "length (as_completed finish tasks) = length tasks"
  using mset_as_completed [of finish tasks] by (metis size_mset)


section \<open>The CodeChef record of one problem\<close>

lemma tr_problem_id_cc_run_one: "tr_problem_id (cc_run_one ms_of code env) = code"
  by (simp add: cc_run_one_def split: prod.splits sum.splits)


section \<open>Exceptions that leave an adapter, and a mixed metadata result\<close>

text \<open>
  C1 (the code at the failing inputs).  The Codeforces streaming operation lets the
  exception of the page fetch out, and the \<open>AttributeError\<close> that \<open>_parse_all_blocks\<close>
  raises on a holder without \<open>problemindex\<close>; the CodeChef contest listing lets out a
  timeout of the catalog fetch, which is not an \<open>HTTPStatusError\<close>.
\<close>

theorem exception_leaves_adapter:
  "cf_stream_tests_for_category_async (Inl timed_out) = Inl timed_out
   \<and> exn_kind_of (projl (cf_stream_tests_for_category_async (Inr page_without_index))) = AttributeError
   \<and> isl (cf_stream_tests_for_category_async (Inr page_without_index))
   \<and> cc_scrape_contest_list (\<lambda>i. i) (Inl timed_out) (\<lambda>contest_id. Inl timed_out) = Inl timed_out"
  by code_simp

text \<open>
  C2 (the code at the failing input).  For a contest whose declared problems are all
  outside the category \<open>main\<close>, the CodeChef metadata operation answers \<open>success = True\<close>
  with no problem.
\<close>

theorem cc_metadata_success_without_problems:
  "md_success (cc_scrape_contest_metadata ''START209D'' (Inr practice_only_contest))
   \<and> md_problems (cc_scrape_contest_metadata ''START209D'' (Inr practice_only_contest)) = []"
  by code_simp


section \<open>The example pages, evaluated\<close>







lemma two_block_page_stream:
  "cf_stream_tests_for_category_async (Inr two_block_page) = Inr two_block_records"
  by code_simp







section \<open>Codeforces: the grouped extraction\<close>

subsection \<open>The dictionaries hold the marked lines of each group\<close>

lemma dict_extend_keys: "fst ` set (dict_extend d k v) = insert k (fst ` set d)"
  by (induction d k v rule: dict_extend.induct) auto

lemma dict_extend_distinct: "distinct (map fst d) \<Longrightarrow> distinct (map fst (dict_extend d k v))"
proof (induction d k v rule: dict_extend.induct)
  case (1 k v)
  then show ?case by simp
next
  case (2 k' l rest k v)
  then show ?case using dict_extend_keys [of rest k v] by auto
qed








lemma merge_groups_distinct:
  "distinct (map fst by_gid) \<Longrightarrow> distinct (map fst (merge_groups by_gid g))"
  by (induction by_gid g rule: merge_groups.induct) (auto simp: dict_extend_distinct)







lemma collect_groups_distinct:
  "distinct (map fst by_gid) \<Longrightarrow> distinct (map fst (collect_groups ps by_gid))"
  by (induction ps arbitrary: by_gid) (auto simp: merge_groups_distinct)









subsection \<open>The three outcomes of the extraction\<close>










section \<open>Codeforces: the cases of a grouped block\<close>





section \<open>Codeforces: how many cases a block gives, and its flag\<close>





section \<open>Codeforces: the combination step\<close>






section \<open>CodeChef: a problem that fails still gets its record\<close>

lemma some_step_raises_iff: "some_step_raises ms_of env = isl (cc_run_one_try ms_of env)"
  by (auto simp: some_step_raises_def cc_run_one_try_def Let_def split: sum.splits)

lemma cc_run_one_fallback:
  "some_step_raises ms_of env \<Longrightarrow> cc_run_one ms_of problem_code env = fallback_record problem_code"
  by (auto simp: some_step_raises_iff cc_run_one_def fallback_record_def split: sum.splits)

lemma cc_stream_mset:
  assumes "main_codes data \<noteq> []"
  shows "mset (cc_stream_tests_for_category_async finish ms_of category_id (Inr data) env)
      = mset (map (\<lambda>c. Payload (cc_run_one ms_of c (env c))) (main_codes data))"
proof -
  have f: "filter (\<lambda>(code, data). p_category_name data = Some ''main'') (cc_problems data)
      = filter cc_is_main (cc_problems data)"
    by (intro filter_cong) (auto simp: cc_is_main_def)
  from assms have n: "filter cc_is_main (cc_problems data) \<noteq> []" "cc_problems data \<noteq> []"
    by (auto simp: main_codes_def)
  have "mset (map Payload (as_completed finish
          (map (\<lambda>c. cc_run_one ms_of c (env c)) (main_codes data))))
      = image_mset Payload (mset (as_completed finish
          (map (\<lambda>c. cc_run_one ms_of c (env c)) (main_codes data))))"
    by simp
  also have "\<dots> = image_mset Payload (mset (map (\<lambda>c. cc_run_one ms_of c (env c)) (main_codes data)))"
    by (simp only: mset_as_completed)
  also have "\<dots> = mset (map (\<lambda>c. Payload (cc_run_one ms_of c (env c))) (main_codes data))"
    by (simp add: multiset.map_comp comp_def)
  finally show ?thesis
    using n by (simp add: cc_stream_tests_for_category_async_def Let_def f main_codes_def)
qed

lemma sibling_records_mset:
  assumes "\<And>q. q \<noteq> p \<Longrightarrow> env' q = env q"
  shows "mset (sibling_records p (map (\<lambda>c. Payload (cc_run_one ms_of c (env c))) codes))
       = mset (sibling_records p (map (\<lambda>c. Payload (cc_run_one ms_of c (env' c))) codes))"
  using assms by (induction codes) (auto simp: sibling_records_def tr_problem_id_cc_run_one)

text \<open>
  C3.  In a CodeChef streaming run over a contest that was fetched, let \<open>p\<close> be one of
  its main problems for which some step of \<open>run_one\<close> raises.  Then the record of the
  fallback defaults for \<open>p\<close> (no tests, 1000 ms, 256 MB, not interactive, not multi-test,
  both combined strings empty) is among the lines written; the lines written are, each
  once, the records of all the main problems, so none is dropped and the stream does not
  stop early; and the records of the other problems are those of any other run in which
  the other problems meet the same answers, whatever happens to \<open>p\<close> there and in
  whatever order the tasks finish.
\<close>

theorem failed_problem_gets_fallback_record:
  assumes "p \<in> set (main_codes data)"
    and "some_step_raises ms_of (env p)"
  shows "Payload (fallback_record p)
           \<in> set (cc_stream_tests_for_category_async finish ms_of category_id (Inr data) env)
    \<and> mset (cc_stream_tests_for_category_async finish ms_of category_id (Inr data) env)
        = mset (map (\<lambda>c. Payload (cc_run_one ms_of c (env c))) (main_codes data))
    \<and> length (cc_stream_tests_for_category_async finish ms_of category_id (Inr data) env)
        = length (main_codes data)
    \<and> ((\<forall>q. q \<noteq> p \<longrightarrow> env' q = env q) \<longrightarrow>
        mset (sibling_records p (cc_stream_tests_for_category_async finish ms_of category_id (Inr data) env))
        = mset (sibling_records p (cc_stream_tests_for_category_async finish' ms_of category_id (Inr data) env')))"
proof (intro conjI impI)
  from assms(1) have ne: "main_codes data \<noteq> []" by auto
  show m: "mset (cc_stream_tests_for_category_async finish ms_of category_id (Inr data) env)
        = mset (map (\<lambda>c. Payload (cc_run_one ms_of c (env c))) (main_codes data))"
    by (rule cc_stream_mset [OF ne])
  have "Payload (cc_run_one ms_of p (env p))
      \<in> set (map (\<lambda>c. Payload (cc_run_one ms_of c (env c))) (main_codes data))"
    using assms(1) by auto
  then have "Payload (fallback_record p)
      \<in> set (map (\<lambda>c. Payload (cc_run_one ms_of c (env c))) (main_codes data))"
    by (simp only: cc_run_one_fallback [OF assms(2)])
  then show "Payload (fallback_record p)
           \<in> set (cc_stream_tests_for_category_async finish ms_of category_id (Inr data) env)"
    using m by (metis set_mset_mset)
  show "length (cc_stream_tests_for_category_async finish ms_of category_id (Inr data) env)
        = length (main_codes data)"
    using m by (metis size_mset length_map)
  assume same: "\<forall>q. q \<noteq> p \<longrightarrow> env' q = env q"
  have "mset (sibling_records p (cc_stream_tests_for_category_async finish ms_of category_id (Inr data) env))
      = filter_mset (\<lambda>item. case item of ErrorRecord msg \<Rightarrow> True | Payload r \<Rightarrow> tr_problem_id r \<noteq> p)
          (mset (cc_stream_tests_for_category_async finish ms_of category_id (Inr data) env))"
    by (simp add: sibling_records_def)
  also have "\<dots> = mset (sibling_records p (map (\<lambda>c. Payload (cc_run_one ms_of c (env c))) (main_codes data)))"
    by (simp add: m sibling_records_def)
  also have "\<dots> = mset (sibling_records p (map (\<lambda>c. Payload (cc_run_one ms_of c (env' c))) (main_codes data)))"
    using same by (intro sibling_records_mset) simp
  also have "\<dots> = filter_mset (\<lambda>item. case item of ErrorRecord msg \<Rightarrow> True | Payload r \<Rightarrow> tr_problem_id r \<noteq> p)
          (mset (cc_stream_tests_for_category_async finish' ms_of category_id (Inr data) env'))"
    by (simp add: cc_stream_mset [OF ne] sibling_records_def)
  also have "\<dots> = mset (sibling_records p (cc_stream_tests_for_category_async finish' ms_of category_id (Inr data) env'))"
    by (simp add: sibling_records_def)
  finally show "mset (sibling_records p (cc_stream_tests_for_category_async finish ms_of category_id (Inr data) env))
        = mset (sibling_records p (cc_stream_tests_for_category_async finish' ms_of category_id (Inr data) env'))" .
qed

lemma one_fails_stream:
  "cc_stream_tests_for_category_async (\<lambda>i. 5 - i) plain_ms_of ''START1'' (Inr two_main_contest) one_fails_env
     = [Payload p2_record, Payload (fallback_record ''P1'')]"
  by code_simp

theorem failed_problem_gets_fallback_record_witness:
  "''P1'' \<in> set (main_codes two_main_contest)
   \<and> some_step_raises plain_ms_of (one_fails_env ''P1'')
   \<and> Payload (fallback_record ''P1'')
       \<in> set (cc_stream_tests_for_category_async (\<lambda>i. 5 - i) plain_ms_of ''START1''
                (Inr two_main_contest) one_fails_env)
   \<and> length (cc_stream_tests_for_category_async (\<lambda>i. 5 - i) plain_ms_of ''START1''
                (Inr two_main_contest) one_fails_env) = length (main_codes two_main_contest)
   \<and> mset (sibling_records ''P1'' (cc_stream_tests_for_category_async (\<lambda>i. 5 - i) plain_ms_of ''START1''
                (Inr two_main_contest) one_fails_env))
     = mset (sibling_records ''P1'' (cc_stream_tests_for_category_async (\<lambda>i. i) plain_ms_of ''START1''
                (Inr two_main_contest) none_fails_env))
   \<and> sibling_records ''P1'' (cc_stream_tests_for_category_async (\<lambda>i. 5 - i) plain_ms_of ''START1''
                (Inr two_main_contest) one_fails_env) = [Payload p2_record]"
proof -
  have p: "''P1'' \<in> set (main_codes two_main_contest)"
    by (simp add: main_codes_def two_main_contest_def cc_is_main_def)
  have r: "some_step_raises plain_ms_of (one_fails_env ''P1'')"
    by (simp add: some_step_raises_def one_fails_env_def timed_out_def)
  have s: "\<forall>q. q \<noteq> ''P1'' \<longrightarrow> none_fails_env q = one_fails_env q"
    by (simp add: none_fails_env_def)
  have o: "sibling_records ''P1'' (cc_stream_tests_for_category_async (\<lambda>i. 5 - i) plain_ms_of ''START1''
                (Inr two_main_contest) one_fails_env) = [Payload p2_record]"
    by (simp add: one_fails_stream sibling_records_def p2_record_def fallback_record_def)
  from failed_problem_gets_fallback_record
      [where p = "''P1''" and data = two_main_contest and ms_of = plain_ms_of
         and env = one_fails_env and finish = "\<lambda>i. 5 - i" and category_id = "''START1''"
         and env' = none_fails_env and finish' = "\<lambda>i. i", OF p r]
    p r s o
  show ?thesis by simp
qed


section \<open>CodeChef: the generations of the catalog\<close>









section \<open>CodeChef: the memory limit of a page\<close>

text \<open>
  C8 (the code at the failing input).  On the page text \<open>Memory Limit. GB\<close> the pattern
  matches and the number captured is a lone dot, on which \<open>float\<close> raises \<open>ValueError\<close>:
  the function returns neither a number nor the default.  The same happens for the run
  \<open>1.2.3\<close>.  In the stream the exception costs the problem its samples and its time limit:
  the record is the one of the fallback defaults.  On the page text of the claim the
  result is 1536, and 256 when the phrase is absent.
\<close>

theorem lone_dot_raises:
  "memory_limit_search ''Memory Limit. GB'' = Some (''.'', ''GB'')
   \<and> isl (extract_memory_limit ''Memory Limit. GB'')
   \<and> exn_kind_of (projl (extract_memory_limit ''Memory Limit. GB'')) = ValueError
   \<and> isl (extract_memory_limit ''Memory Limit: 1.2.3 MB'')
   \<and> cc_run_one plain_ms_of ''P1'' dot_page_env = fallback_record ''P1''
   \<and> extract_memory_limit ''Memory Limit: 1.5 GB'' = Inr 1536
   \<and> extract_memory_limit ''no limit here'' = Inr 256"
  by code_simp


section \<open>The problem ids of one streaming run\<close>

lemma b_letter_parse_block: "b_letter (parse_block letter b) = letter"
  by (auto simp: parse_block_def split: prod.splits)

lemma parse_blocks_loop_letters:
  "parse_blocks_loop bs out = Inr res \<Longrightarrow>
     map b_letter res =
       map b_letter out
       @ filter (\<lambda>l. l \<noteq> [])
           (map (\<lambda>(b, parents). case block_letter parents of Inl e \<Rightarrow> [] | Inr l \<Rightarrow> l) bs)"
proof (induction bs arbitrary: out)
  case Nil
  then show ?case by simp
next
  case (Cons bp bs)
  obtain b parents where bp: "bp = (b, parents)" by (cases bp)
  from Cons.prems obtain letter where l: "block_letter parents = Inr letter"
    by (auto simp: bp split: sum.splits)
  show ?case
  proof (cases "letter = []")
    case True
    with Cons.prems l have "parse_blocks_loop bs out = Inr res" by (simp add: bp)
    from Cons.IH [OF this] True l show ?thesis by (simp add: bp)
  next
    case False
    with Cons.prems l have "parse_blocks_loop bs (out @ [parse_block letter b]) = Inr res"
      by (simp add: bp)
    from Cons.IH [OF this] False l show ?thesis by (simp add: bp b_letter_parse_block)
  qed
qed

lemma parse_all_blocks_letters:
  "parse_all_blocks soup = Inr blocks \<Longrightarrow> map b_letter blocks = block_letters soup"
  using parse_blocks_loop_letters [of _ "[]" blocks]
  by (simp add: parse_all_blocks_def block_letters_def)

lemma block_letters_nonempty: "l \<in> set (block_letters soup) \<Longrightarrow> l \<noteq> []"
  by (simp add: block_letters_def)

lemma payload_ids_map_Payload: "payload_ids (map Payload rs) = map tr_problem_id rs"
  by (induction rs) (simp_all add: payload_ids_def)

lemma cc_stream_ids:
  "mset (payload_ids (cc_stream_tests_for_category_async finish ms_of category_id (Inr data) env))
     = mset (map fst (filter cc_is_main (cc_problems data)))"
proof -
  have f: "filter (\<lambda>(code, data). p_category_name data = Some ''main'') (cc_problems data)
      = filter cc_is_main (cc_problems data)"
    by (intro filter_cong) (auto simp: cc_is_main_def)
  let ?keys = "map fst (filter cc_is_main (cc_problems data))"
  have "mset (map tr_problem_id (as_completed finish
          (map (\<lambda>problem_code. cc_run_one ms_of problem_code (env problem_code)) ?keys)))
      = mset ?keys"
  proof -
    have "mset (map tr_problem_id (as_completed finish
          (map (\<lambda>problem_code. cc_run_one ms_of problem_code (env problem_code)) ?keys)))
       = image_mset tr_problem_id (mset (as_completed finish
          (map (\<lambda>problem_code. cc_run_one ms_of problem_code (env problem_code)) ?keys)))"
      by simp
    also have "\<dots> = image_mset tr_problem_id
          (mset (map (\<lambda>problem_code. cc_run_one ms_of problem_code (env problem_code)) ?keys))"
      by (simp only: mset_as_completed)
    also have "\<dots> = mset ?keys"
      by (simp add: multiset.map_comp comp_def tr_problem_id_cc_run_one)
    finally show ?thesis .
  qed
  then have main: "mset (payload_ids (map Payload (as_completed finish
          (map (\<lambda>problem_code. cc_run_one ms_of problem_code (env problem_code)) ?keys))))
      = mset ?keys"
    by (simp only: payload_ids_map_Payload)
  show ?thesis
  proof (cases "filter cc_is_main (cc_problems data) = []")
    case True
    then show ?thesis
      by (simp add: cc_stream_tests_for_category_async_def Let_def f payload_ids_def)
  next
    case False
    then have "cc_problems data \<noteq> []" by auto
    with False main show ?thesis
      by (simp add: cc_stream_tests_for_category_async_def Let_def f)
  qed
qed

text \<open>
  C9, as stated, at a page with two problems whose index letters are \<open>A\<close> and \<open>a\<close>: the
  Codeforces stream writes two records with the problem id \<open>a\<close>.  And a CodeChef contest
  whose problems map has the empty string as a key gives a record with an empty problem
  id.
\<close>

theorem problem_ids_repeat:
  "map tr_problem_id (projr (cf_stream_tests_for_category_async (Inr duplicate_index_page))) = [''a'', ''a'']
   \<and> \<not> distinct (map tr_problem_id (projr (cf_stream_tests_for_category_async (Inr duplicate_index_page))))
   \<and> payload_ids (cc_stream_tests_for_category_async (\<lambda>i. i) plain_ms_of ''START1''
         (Inr empty_code_contest) all_fetches_fail) = [[]]"
proof -
  have a: "map tr_problem_id (projr (cf_stream_tests_for_category_async (Inr duplicate_index_page))) = [''a'', ''a'']"
    by code_simp
  have b: "payload_ids (cc_stream_tests_for_category_async (\<lambda>i. i) plain_ms_of ''START1''
         (Inr empty_code_contest) all_fetches_fail) = [[]]"
    by code_simp
  show ?thesis unfolding a using b by simp
qed

text \<open>
  C9, amended.  Codeforces: the problem ids of the records of a run are, in order, the
  lower-cased index letters of the problem blocks of the page that have a letter; each is
  non-empty; and they are pairwise distinct exactly when those lower-cased letters are
  (the code removes no duplicate).  CodeChef, for a problems map (a dict, so its keys are
  distinct): the problem ids of the payloads are the keys of the problems of category
  \<open>main\<close>, each once; they are pairwise distinct; and each is non-empty exactly when
  each of those keys is.
\<close>

theorem problem_ids_of_a_run:
  "(cf_stream_tests_for_category_async (Inr soup) = Inr records \<longrightarrow>
      map tr_problem_id records = map lower (block_letters soup)
      \<and> list_all (\<lambda>r. tr_problem_id r \<noteq> []) records
      \<and> distinct (map tr_problem_id records) = distinct (map lower (block_letters soup)))
   \<and> (distinct (map fst (cc_problems data)) \<longrightarrow>
      mset (payload_ids (cc_stream_tests_for_category_async finish ms_of category_id (Inr data) env))
        = mset (map fst (filter cc_is_main (cc_problems data)))
      \<and> distinct (payload_ids (cc_stream_tests_for_category_async finish ms_of category_id (Inr data) env))
      \<and> list_all (\<lambda>i. i \<noteq> [])
           (payload_ids (cc_stream_tests_for_category_async finish ms_of category_id (Inr data) env))
         = list_all (\<lambda>kv. fst kv \<noteq> []) (filter cc_is_main (cc_problems data)))"
proof (intro conjI impI)
  assume a: "cf_stream_tests_for_category_async (Inr soup) = Inr records"
  then obtain blocks where p: "parse_all_blocks soup = Inr blocks"
    and rs: "records = map cf_payload blocks"
    by (auto simp: cf_stream_tests_for_category_async_def split: sum.splits)
  have "map tr_problem_id records = map lower (map b_letter blocks)"
    by (simp add: rs cf_payload_def comp_def)
  then show ids: "map tr_problem_id records = map lower (block_letters soup)"
    by (simp add: parse_all_blocks_letters [OF p])
  then show "distinct (map tr_problem_id records) = distinct (map lower (block_letters soup))"
    by simp
  have "list_all (\<lambda>i. i \<noteq> []) (map lower (block_letters soup))"
    using block_letters_nonempty by (auto simp: list_all_iff lower_def)
  then have "list_all (\<lambda>i. i \<noteq> []) (map tr_problem_id records)" by (simp only: ids)
  then show "list_all (\<lambda>r. tr_problem_id r \<noteq> []) records" by (simp add: list_all_iff)
next
  let ?out = "payload_ids (cc_stream_tests_for_category_async finish ms_of category_id (Inr data) env)"
  assume d: "distinct (map fst (cc_problems data))"
  show m: "mset ?out = mset (map fst (filter cc_is_main (cc_problems data)))"
    by (rule cc_stream_ids)
  have "distinct (map fst (filter cc_is_main (cc_problems data)))"
    using d by (rule distinct_map_filter)
  then show "distinct ?out" using m by (metis mset_eq_imp_distinct_iff)
  have "set ?out = set (map fst (filter cc_is_main (cc_problems data)))"
    using m by (metis set_mset_mset)
  then show "list_all (\<lambda>i. i \<noteq> []) ?out
      = list_all (\<lambda>kv. fst kv \<noteq> []) (filter cc_is_main (cc_problems data))"
    by (auto simp: list_all_iff)
qed

theorem problem_ids_of_a_run_witness:
  "cf_stream_tests_for_category_async (Inr two_block_page) = Inr two_block_records
   \<and> map tr_problem_id two_block_records = map lower (block_letters two_block_page)
   \<and> list_all (\<lambda>r. tr_problem_id r \<noteq> []) two_block_records
   \<and> distinct (map tr_problem_id two_block_records) = distinct (map lower (block_letters two_block_page))
   \<and> distinct (map tr_problem_id two_block_records)
   \<and> distinct (map fst (cc_problems two_main_contest))
   \<and> mset (payload_ids (cc_stream_tests_for_category_async (\<lambda>i. 5 - i) plain_ms_of ''START1''
             (Inr two_main_contest) all_fetches_fail))
       = mset (map fst (filter cc_is_main (cc_problems two_main_contest)))
   \<and> distinct (payload_ids (cc_stream_tests_for_category_async (\<lambda>i. 5 - i) plain_ms_of ''START1''
             (Inr two_main_contest) all_fetches_fail))
   \<and> map fst (filter cc_is_main (cc_problems two_main_contest)) = [''P1'', ''P2'']"
proof -
  have d: "distinct (map fst (cc_problems two_main_contest))"
    by (simp add: two_main_contest_def)
  have i: "distinct (map tr_problem_id two_block_records)"
    by (simp add: two_block_records_def)
  have k: "map fst (filter cc_is_main (cc_problems two_main_contest)) = [''P1'', ''P2'']"
    by (simp add: two_main_contest_def cc_is_main_def)
  from problem_ids_of_a_run [of two_block_page two_block_records two_main_contest
      "\<lambda>i. 5 - i" plain_ms_of "''START1''" all_fetches_fail]
    two_block_page_stream d i k
  show ?thesis by simp
qed


section \<open>Codeforces: the contest list holds the finished contests\<close>

lemma cf_collect_Inr:
  "cf_collect cs acc = Inr r \<Longrightarrow>
     \<exists>new. r = acc @ new \<and> list_all2 cf_listed new (filter cf_finished cs)"
proof (induction cs arbitrary: acc)
  case Nil
  then show ?case by simp
next
  case (Cons c cs)
  show ?case
  proof (cases "cf_finished c")
    case False
    with Cons show ?thesis by (simp add: cf_finished_def)
  next
    case True
    with Cons.prems obtain i n where in_: "c_id c = Some i" "c_name c = Some n"
      and rec: "cf_collect cs (acc @ [\<lparr>cs_id = str_of_int i, cs_name = n, cs_display_name = n\<rparr>]) = Inr r"
      by (auto simp: cf_finished_def split: option.splits)
    from Cons.IH [OF rec] obtain new where
      "r = (acc @ [\<lparr>cs_id = str_of_int i, cs_name = n, cs_display_name = n\<rparr>]) @ new"
      "list_all2 cf_listed new (filter cf_finished cs)" by blast
    moreover have "cf_listed \<lparr>cs_id = str_of_int i, cs_name = n, cs_display_name = n\<rparr> c"
      using in_ by (simp add: cf_listed_def)
    ultimately show ?thesis using True by simp
  qed
qed

lemma cf_listed_complete: "cf_listed s c \<Longrightarrow> cf_complete c"
  by (auto simp: cf_listed_def cf_complete_def split: option.splits)

lemma cf_collect_Inr_complete:
  assumes "cf_collect cs acc = Inr r"
  shows "list_all cf_complete (filter cf_finished cs)"
proof -
  from cf_collect_Inr [OF assms] obtain new where
    "list_all2 cf_listed new (filter cf_finished cs)" by blast
  then show ?thesis
    by (induction rule: list_all2_induct) (simp_all add: cf_listed_complete)
qed

lemma cf_collect_total:
  "list_all cf_complete (filter cf_finished cs) \<Longrightarrow> \<exists>r. cf_collect cs acc = Inr r"
  by (induction cs arbitrary: acc) (auto simp: cf_finished_def cf_complete_def)

lemma fixture_catalog_listing:
  "cf_scrape_contest_list (Inr fixture_catalog) =
     \<lparr>cl_success = True, cl_error = [],
      cl_contests =
        [\<lparr>cs_id = ''1550'', cs_name = ''Educational Round 155'', cs_display_name = ''Educational Round 155''\<rparr>,
         \<lparr>cs_id = ''1000'', cs_name = ''Round 1000'', cs_display_name = ''Round 1000''\<rparr>]\<rparr>"
  by code_simp

text \<open>
  C10, as stated, at a catalog with status \<open>OK\<close> whose second finished entry has no
  name: the catalog holds finished entries and none appears, the operation answers a
  failure envelope (the \<open>KeyError\<close> is caught).  The same at an answer whose status is not
  \<open>OK\<close> and whose result holds finished entries.
\<close>

theorem finished_entries_not_listed:
  "filter cf_finished nameless_entries \<noteq> []
   \<and> \<not> cl_success (cf_scrape_contest_list (Inr nameless_catalog))
   \<and> cl_contests (cf_scrape_contest_list (Inr nameless_catalog)) = []
   \<and> filter cf_finished fixture_entries \<noteq> []
   \<and> cf_scrape_contest_list (Inr failed_status_catalog) = contests_error ''Invalid API response''"
  by code_simp

text \<open>
  C10, amended.  The listing succeeds exactly when the API answered, with the status
  \<open>OK\<close> and a result list in which at least one entry has the phase \<open>FINISHED\<close> and every
  entry of that phase carries an id and a name.  When it succeeds, the contests returned
  are, one for one and in the order of the catalog, the listings of exactly the entries
  whose phase is \<open>FINISHED\<close> (the id as decimal text, the name as name and display name).
  In every other case, the one of a catalog without a finished entry among them, the
  operation returns a failure envelope with no contests, never an empty successful list.
\<close>

theorem cf_contest_list_finished_only:
  "cl_success (cf_scrape_contest_list response) =
     (case response of
        Inl e \<Rightarrow> False
      | Inr data \<Rightarrow>
          api_status data = Some ''OK''
          \<and> (case api_result data of
                None \<Rightarrow> False
              | Some entries \<Rightarrow>
                  filter cf_finished entries \<noteq> []
                  \<and> list_all cf_complete (filter cf_finished entries)))
   \<and> (\<forall>data entries.
         response = Inr data \<and> api_result data = Some entries
         \<and> cl_success (cf_scrape_contest_list response) \<longrightarrow>
           list_all2 cf_listed (cl_contests (cf_scrape_contest_list response))
             (filter cf_finished entries))
   \<and> (\<not> cl_success (cf_scrape_contest_list response) \<longrightarrow>
         cl_contests (cf_scrape_contest_list response) = [])"
proof (cases response)
  case (Inl e)
  then show ?thesis by (simp add: cf_scrape_contest_list_def contests_error_def)
next
  case (Inr data)
  show ?thesis
  proof (cases "api_status data = Some ''OK''")
    case False
    with Inr show ?thesis by (simp add: cf_scrape_contest_list_def contests_error_def)
  next
    case ok: True
    show ?thesis
    proof (cases "api_result data")
      case None
      with Inr ok show ?thesis by (simp add: cf_scrape_contest_list_def contests_error_def)
    next
      case (Some entries)
      show ?thesis
      proof (cases "cf_collect entries []")
        case (Inl e)
        then have "\<not> list_all cf_complete (filter cf_finished entries)"
          using cf_collect_total [of entries "[]"] by auto
        with Inr ok Some Inl show ?thesis
          by (simp add: cf_scrape_contest_list_def contests_error_def)
      next
        case r: (Inr contests)
        from cf_collect_Inr [OF r] have l: "list_all2 cf_listed contests (filter cf_finished entries)"
          by simp
        have c: "list_all cf_complete (filter cf_finished entries)"
          using r by (rule cf_collect_Inr_complete)
        from l have e: "(contests = []) = (filter cf_finished entries = [])"
          by (auto dest: list_all2_lengthD)
        show ?thesis
        proof (cases "contests = []")
          case True
          with Inr ok Some r e show ?thesis
            by (simp add: cf_scrape_contest_list_def contests_error_def)
        next
          case False
          with Inr ok Some r e l c show ?thesis
            by (simp add: cf_scrape_contest_list_def)
        qed
      qed
    qed
  qed
qed

theorem cf_contest_list_finished_only_witness:
  "api_result fixture_catalog = Some fixture_entries
   \<and> cl_success (cf_scrape_contest_list (Inr fixture_catalog))
   \<and> list_all2 cf_listed (cl_contests (cf_scrape_contest_list (Inr fixture_catalog)))
        (filter cf_finished fixture_entries)
   \<and> map cs_id (cl_contests (cf_scrape_contest_list (Inr fixture_catalog))) = [''1550'', ''1000'']
   \<and> api_result unfinished_catalog = Some unfinished_entries
   \<and> filter cf_finished unfinished_entries = []
   \<and> \<not> cl_success (cf_scrape_contest_list (Inr unfinished_catalog))
   \<and> cl_contests (cf_scrape_contest_list (Inr unfinished_catalog)) = []"
proof -
  have a: "api_result fixture_catalog = Some fixture_entries"
    and k: "api_status fixture_catalog = Some ''OK''"
    by (simp_all add: fixture_catalog_def)
  have b: "api_result unfinished_catalog = Some unfinished_entries"
    by (simp add: unfinished_catalog_def)
  have f: "filter cf_finished fixture_entries \<noteq> []"
    "list_all cf_complete (filter cf_finished fixture_entries)"
    by (simp_all add: fixture_entries_def cf_finished_def cf_complete_def)
  have n: "filter cf_finished unfinished_entries = []"
    by (simp add: unfinished_entries_def cf_finished_def)
  from cf_contest_list_finished_only [of "Inr fixture_catalog"] a k f
  have s: "cl_success (cf_scrape_contest_list (Inr fixture_catalog))"
    and l: "list_all2 cf_listed (cl_contests (cf_scrape_contest_list (Inr fixture_catalog)))
        (filter cf_finished fixture_entries)"
    by simp_all
  from cf_contest_list_finished_only [of "Inr unfinished_catalog"] b n
  have u: "\<not> cl_success (cf_scrape_contest_list (Inr unfinished_catalog))"
    "cl_contests (cf_scrape_contest_list (Inr unfinished_catalog)) = []"
    by simp_all
  have i: "map cs_id (cl_contests (cf_scrape_contest_list (Inr fixture_catalog))) = [''1550'', ''1000'']"
    by (simp add: fixture_catalog_listing)
  from a b s l u i n show ?thesis by blast
qed


end
